theory Spec2Isabelle
  imports Main
begin

section \<open>Values, effects and the process state\<close>

text \<open>
  The two scripts (\<^verbatim>\<open>scripts/integrations.py\<close> and \<^verbatim>\<open>scripts/nightly_audit.py\<close>) are
  sequential Python programs whose behaviour is what they write, send and print, and how
  the process ends. Both are embedded as state-passing functions: the state records every
  effect in program order, an exception or \<^verbatim>\<open>sys.exit\<close> is the left branch of a sum.

  Python objects that end up in a JSON document or an HTTP payload are JSON values; a dict
  is an association list in insertion order, as \<^verbatim>\<open>json.dump\<close> writes it. The type of
  floats is a parameter \<open>'f\<close>: the model never computes with them.
\<close>

datatype 'f json =
    JNull
  | JBool bool
  | JInt int
  | JFloat 'f
  | JStr string
  | JList "'f json list"
  | JObj "(string \<times> 'f json) list"

type_synonym headers = "(string \<times> string) list"

datatype 'f effect =
    MakeDirs string                     \<comment> \<open>\<^verbatim>\<open>os.makedirs(p, exist_ok=True)\<close>\<close>
  | WriteJson string "'f json"          \<comment> \<open>\<^verbatim>\<open>open(p, 'w')\<close> and \<^verbatim>\<open>json.dump(v, f, indent=2)\<close>\<close>
  | WriteBytes string string            \<comment> \<open>\<^verbatim>\<open>open(p, 'wb')\<close> and \<^verbatim>\<open>f.write(raw)\<close>\<close>
  | AppendText string string            \<comment> \<open>\<^verbatim>\<open>open(p, 'a')\<close> and \<^verbatim>\<open>f.write(line)\<close>\<close>
  | Stdout string
  | Stderr string
  | HttpPost string headers "'f json"   \<comment> \<open>\<^verbatim>\<open>requests.post(url, json=payload, headers=...)\<close>\<close>
  | HttpGet string headers              \<comment> \<open>\<^verbatim>\<open>requests.get(url, headers=...)\<close>\<close>
  | HttpPostFile string headers string  \<comment> \<open>\<^verbatim>\<open>requests.post(url, files=..., headers=...)\<close>\<close>
  | ImapSession "string option" "string option" "string option" int string
                                        \<comment> \<open>host, user, password, port, SINCE date\<close>
  | ImapLogout
  | TwilioList string string string     \<comment> \<open>sid, token, number listed\<close>

text \<open>
  \<open>SysExit n\<close> is \<^verbatim>\<open>sys.exit(n)\<close>; \<open>Raised e\<close> is any exception derived from
  \<^verbatim>\<open>Exception\<close>, with its text. An \<^verbatim>\<open>except Exception\<close> clause catches the second and
  not the first.
\<close>

datatype abort = SysExit nat | Raised string

record 'f st =
  trace :: "'f effect list"
  ticks :: nat   \<comment> \<open>how many times the clock has been read\<close>

type_synonym ('f, 'a) io = "'f st \<Rightarrow> (abort + 'a) \<times> 'f st"

definition init :: "'f st" where
  "init = \<lparr>trace = [], ticks = 0\<rparr>"

definition io_return :: "'a \<Rightarrow> ('f, 'a) io" where
  "io_return x = (\<lambda>s. (Inr x, s))"

definition io_raise :: "abort \<Rightarrow> ('f, 'a) io" where
  "io_raise a = (\<lambda>s. (Inl a, s))"

definition io_bind :: "('f, 'a) io \<Rightarrow> ('a \<Rightarrow> ('f, 'b) io) \<Rightarrow> ('f, 'b) io" where
  "io_bind m k = (\<lambda>s. case m s of (Inl a, s') \<Rightarrow> (Inl a, s') | (Inr x, s') \<Rightarrow> k x s')"

definition emit :: "'f effect \<Rightarrow> ('f, unit) io" where
  "emit e = (\<lambda>s. (Inr (), s\<lparr>trace := trace s @ [e]\<rparr>))"

definition read_clock :: "(nat \<Rightarrow> 'a) \<Rightarrow> ('f, 'a) io" where
  "read_clock c = (\<lambda>s. (Inr (c (ticks s)), s\<lparr>ticks := Suc (ticks s)\<rparr>))"

text \<open>\<^verbatim>\<open>try: m  except Exception as e: h(e)\<close>\<close>

definition try_except :: "('f, 'a) io \<Rightarrow> (string \<Rightarrow> ('f, 'a) io) \<Rightarrow> ('f, 'a) io" where
  "try_except m h =
     (\<lambda>s. case m s of
        (Inl (Raised e), s') \<Rightarrow> h e s'
      | (Inl (SysExit n), s') \<Rightarrow> (Inl (SysExit n), s')
      | (Inr x, s') \<Rightarrow> (Inr x, s'))"

text \<open>
  The exit status of the interpreter running \<^verbatim>\<open>run()\<close> as the main module: the argument
  of \<^verbatim>\<open>sys.exit\<close>, 1 after an uncaught exception, 0 when \<^verbatim>\<open>run()\<close> returns (its return
  value is dropped by \<^verbatim>\<open>if __name__ == '__main__': run()\<close>).
\<close>

definition exit_status :: "(abort + 'a) \<times> 'f st \<Rightarrow> nat" where
  "exit_status r = (case fst r of Inl (SysExit n) \<Rightarrow> n | Inl (Raised e) \<Rightarrow> 1 | Inr x \<Rightarrow> 0)"

definition effects :: "(abort + 'a) \<times> 'f st \<Rightarrow> 'f effect list" where
  "effects r = trace (snd r)"

subsection \<open>Python strings, truthiness, dicts, paths\<close>

text \<open>\<^verbatim>\<open>if v:\<close> for a value that is \<^verbatim>\<open>None\<close> or a string.\<close>

definition truthy :: "string option \<Rightarrow> bool" where
  "truthy v = (case v of None \<Rightarrow> False | Some s \<Rightarrow> s \<noteq> [])"

text \<open>\<^verbatim>\<open>sep.join(xs)\<close>\<close>

fun join :: "string \<Rightarrow> string list \<Rightarrow> string" where
  "join sep [] = []"
| "join sep [x] = x"
| "join sep (x # y # ys) = x @ sep @ join sep (y # ys)"

text \<open>\<^verbatim>\<open>d.get(k)\<close> and \<^verbatim>\<open>d[k] = v\<close> on a dict kept in insertion order.\<close>

definition dict_get :: "(string \<times> 'v) list \<Rightarrow> string \<Rightarrow> 'v option" where
  "dict_get d k = map_of d k"

fun dict_set :: "(string \<times> 'v) list \<Rightarrow> string \<Rightarrow> 'v \<Rightarrow> (string \<times> 'v) list" where
  "dict_set [] k v = [(k, v)]"
| "dict_set ((k', v') # d) k v = (if k' = k then (k, v) # d else (k', v') # dict_set d k v)"

text \<open>\<^verbatim>\<open>os.path.join(a, b)\<close> on POSIX.\<close>

definition path_join :: "string \<Rightarrow> string \<Rightarrow> string" where
  "path_join a b =
     (if b \<noteq> [] \<and> hd b = CHR ''/'' then b
      else if a = [] \<or> last a = CHR ''/'' then a @ b
      else a @ ''/'' @ b)"

definition newline :: string where
  "newline = [CHR 0x0A]"

section \<open>scripts/integrations.py\<close>

text \<open>
  What the script reads and calls. The environment and the input directory are read-only;
  the HTTP client answers a request with a response or raises. Local file operations are
  taken to succeed and the two input files to be readable (a CSV file as the rows
  \<^verbatim>\<open>csv.DictReader\<close> yields, a JSON file as its parsed document). A row maps a column
  name to its field; a column the row lacks is \<open>None\<close>, as \<^verbatim>\<open>r.get\<close> returns it.

  \<open>py_float\<close> is \<^verbatim>\<open>float(s)\<close> on a string (\<open>None\<close>: it raises \<^verbatim>\<open>ValueError\<close>),
  \<open>float_zero\<close> is \<^verbatim>\<open>float(0)\<close>, \<open>float_sum\<close> is \<^verbatim>\<open>sum\<close> on a non-empty list of floats,
  \<open>py_repr\<close> is the text an f-string gives a dict.
\<close>

type_synonym row = "string \<Rightarrow> string option"

record response =
  ok :: bool
  status_code :: nat
  resp_text :: string

record host =
  getenv :: "string \<Rightarrow> string option"
  utcnow_isoformat :: "nat \<Rightarrow> string"   \<comment> \<open>the k-th reading of \<^verbatim>\<open>datetime.utcnow().isoformat()\<close>\<close>

record 'f world = host +
  csv_file :: "string \<Rightarrow> row list option"
  json_file :: "string \<Rightarrow> 'f json option"
  requests_post :: "string \<Rightarrow> headers \<Rightarrow> 'f json \<Rightarrow> string + response"
  py_float :: "string \<Rightarrow> 'f option"
  float_zero :: 'f
  float_sum :: "'f list \<Rightarrow> 'f"
  py_repr :: "'f json \<Rightarrow> string"

text \<open>\<^verbatim>\<open>os.getenv(k, '')\<close>\<close>

definition getenv_or_empty :: "'w host_scheme \<Rightarrow> string \<Rightarrow> string" where
  "getenv_or_empty W k = (case getenv W k of None \<Rightarrow> [] | Some v \<Rightarrow> v)"

definition load_ledger :: "'f world \<Rightarrow> string \<Rightarrow> row list" where
  "load_ledger W path =
     (case csv_file W (path_join path ''ledger.csv'') of
        None \<Rightarrow> []
      | Some rows \<Rightarrow> rows)"

definition load_clearing :: "'f world \<Rightarrow> string \<Rightarrow> 'f json option" where
  "load_clearing W path = json_file W (path_join (path_join path ''clearing'') ''clearing_report.json'')"

definition post :: "'f world \<Rightarrow> string \<Rightarrow> string \<Rightarrow> 'f json \<Rightarrow> ('f, 'f json) io" where
  "post W url key payload =
     (let headers = [(''Content-Type'', ''application/json'')] @
                    (if key \<noteq> [] then [(''Authorization'', ''Bearer '' @ key)] else [])
      in io_bind (emit (HttpPost url headers payload)) (\<lambda>_.
         case requests_post W url headers payload of
           Inr resp \<Rightarrow> io_return (JObj [(''ok'', JBool (ok resp)),
                                         (''status'', JInt (int (status_code resp))),
                                         (''body'', JStr (resp_text resp))])
         | Inl e \<Rightarrow> io_return (JObj [(''ok'', JBool False), (''error'', JStr e)])))"

definition log :: "'f world \<Rightarrow> string \<Rightarrow> string \<Rightarrow> ('f, unit) io" where
  "log W log_path msg =
     io_bind (read_clock (utcnow_isoformat W)) (\<lambda>now.
       let line = now @ ''Z'' @ '' '' @ msg @ newline
       in io_bind (emit (AppendText log_path line)) (\<lambda>_. emit (Stdout line)))"

definition enterprise_fields :: "(string \<times> string) list" where
  "enterprise_fields =
     [(''uei'', ''UEI''), (''cage'', ''CAGE_CODE''),
      (''dodaac_contracting'', ''DODAAC_CONTRACTING''), (''dodaac_funding'', ''DODAAC_FUNDING''),
      (''paying_dodaac'', ''PAYING_DODAAC''), (''fedstrip'', ''FEDSTRIP''),
      (''finance_unitid'', ''FINANCE_UNITID''), (''cag_code'', ''CAG_CODE''),
      (''ba_codes'', ''BA_CODES''), (''scf_code'', ''SCF_CODE''),
      (''district_cd'', ''DISTRICT_CD''), (''eps'', ''EPS'')]"

definition read_enterprise :: "'f world \<Rightarrow> (string \<times> string) list" where
  "read_enterprise W = map (\<lambda>(k, var). (k, getenv_or_empty W var)) enterprise_fields"

text \<open>Lines 96 to 101: the required identifiers that are missing, in the order tested.\<close>

definition missing_identifiers :: "(string \<times> string) list \<Rightarrow> string list" where
  "missing_identifiers enterprise =
     (if \<not> truthy (dict_get enterprise ''uei'') then [''UEI''] else []) @
     (if \<not> truthy (dict_get enterprise ''cage'') then [''CAGE_CODE''] else [])"

definition recommended :: "string list" where
  "recommended = [''dodaac_contracting'', ''paying_dodaac'', ''fedstrip'', ''finance_unitid'']"

definition json_of_str_opt :: "string option \<Rightarrow> 'f json" where
  "json_of_str_opt v = (case v of None \<Rightarrow> JNull | Some s \<Rightarrow> JStr s)"

definition enterprise_json :: "(string \<times> string) list \<Rightarrow> 'f json" where
  "enterprise_json enterprise = JObj (map (\<lambda>(k, v). (k, JStr v)) enterprise)"

text \<open>
  Line 146: \<^verbatim>\<open>sum([float(r.get('amount') or 0) for r in ledger])\<close>. The list is built
  first; \<^verbatim>\<open>float\<close> of a string that is no number raises \<^verbatim>\<open>ValueError\<close>, which nothing
  in \<^verbatim>\<open>run\<close> catches.
\<close>

definition amount_float :: "'f world \<Rightarrow> row \<Rightarrow> 'f option" where
  "amount_float W r =
     (case r ''amount'' of
        None \<Rightarrow> Some (float_zero W)
      | Some s \<Rightarrow> if s = [] then Some (float_zero W) else py_float W s)"

fun amount_floats :: "'f world \<Rightarrow> row list \<Rightarrow> 'f list option" where
  "amount_floats W [] = Some []"
| "amount_floats W (r # rs) =
     (case amount_float W r of
        None \<Rightarrow> None
      | Some x \<Rightarrow> (case amount_floats W rs of None \<Rightarrow> None | Some xs \<Rightarrow> Some (x # xs)))"

definition total_amount :: "'f world \<Rightarrow> row list \<Rightarrow> string + 'f json" where
  "total_amount W ledger =
     (case amount_floats W ledger of
        None \<Rightarrow> Inl ''ValueError''
      | Some xs \<Rightarrow> if xs = [] then Inr (JInt 0) else Inr (JFloat (float_sum W xs)))"

definition coupa_payload :: "string \<Rightarrow> (string \<times> string) list \<Rightarrow> row list \<Rightarrow> 'f json" where
  "coupa_payload run_ts enterprise ledger =
     JObj [(''summary_ts'', JStr run_ts),
           (''source'', JStr ''vbtn_email_processor''),
           (''enterprise'', enterprise_json enterprise),
           (''items'', JList (map (\<lambda>r. JObj [(''message_id'', json_of_str_opt (r ''message_id'')),
                                              (''vendor'', json_of_str_opt (r ''from'')),
                                              (''amount'', json_of_str_opt (r ''amount'')),
                                              (''currency'', json_of_str_opt (r ''currency'')),
                                              (''subject'', json_of_str_opt (r ''subject''))]) ledger))]"

definition piee_payload :: "string \<Rightarrow> (string \<times> string) list \<Rightarrow> row list \<Rightarrow> 'f json \<Rightarrow> 'f json" where
  "piee_payload run_ts enterprise ledger amount_total =
     JObj [(''report_ts'', JStr run_ts),
           (''enterprise'', enterprise_json enterprise),
           (''items_count'', JInt (int (length ledger))),
           (''total_amount'', amount_total)]"

definition sam_payload :: "string \<Rightarrow> (string \<times> string) list \<Rightarrow> row list \<Rightarrow> 'f json" where
  "sam_payload run_ts enterprise ledger =
     JObj (map (\<lambda>k. (k, json_of_str_opt (dict_get enterprise k))) (map fst enterprise_fields) @
           [(''items'', JInt (int (length ledger))), (''timestamp'', JStr run_ts)])"

text \<open>
  The three target blocks of \<^verbatim>\<open>run\<close> (lines 117 to 135, 137 to 152 and 154 to 179), each
  taking and returning \<^verbatim>\<open>report['results']\<close>.
\<close>

definition publish_coupa ::
  "'f world \<Rightarrow> string \<Rightarrow> string \<Rightarrow> (string \<times> string) list \<Rightarrow> row list \<Rightarrow>
   (string \<times> 'f json) list \<Rightarrow> ('f, (string \<times> 'f json) list) io" where
  "publish_coupa W log_path run_ts enterprise ledger results =
     (let coupa_url = getenv W ''COUPA_API_URL''; coupa_key = getenv W ''COUPA_API_KEY''
      in if truthy coupa_url \<and> truthy coupa_key then
           io_bind (log W log_path ''Posting to Coupa...'') (\<lambda>_.
           io_bind (post W (the coupa_url) (the coupa_key) (coupa_payload run_ts enterprise ledger)) (\<lambda>res.
           io_bind (log W log_path (''Coupa response: '' @ py_repr W res)) (\<lambda>_.
           io_return (dict_set results ''coupa'' res))))
         else
           io_bind (log W log_path ''Skipping Coupa: credentials or URL not set'') (\<lambda>_.
           io_return results))"

definition publish_piee ::
  "'f world \<Rightarrow> string \<Rightarrow> string \<Rightarrow> (string \<times> string) list \<Rightarrow> row list \<Rightarrow>
   (string \<times> 'f json) list \<Rightarrow> ('f, (string \<times> 'f json) list) io" where
  "publish_piee W log_path run_ts enterprise ledger results =
     (let piee_url = getenv W ''PIEE_API_URL''; piee_key = getenv W ''PIEE_API_KEY''
      in if truthy piee_url \<and> truthy piee_key then
           io_bind (log W log_path ''Posting to PIEE...'') (\<lambda>_.
           case total_amount W ledger of
             Inl e \<Rightarrow> io_raise (Raised e)
           | Inr amount_total \<Rightarrow>
               io_bind (post W (the piee_url) (the piee_key) (piee_payload run_ts enterprise ledger amount_total)) (\<lambda>res.
               io_bind (log W log_path (''PIEE response: '' @ py_repr W res)) (\<lambda>_.
               io_return (dict_set results ''piee'' res))))
         else
           io_bind (log W log_path ''Skipping PIEE: credentials or URL not set'') (\<lambda>_.
           io_return results))"

definition publish_sam ::
  "'f world \<Rightarrow> string \<Rightarrow> string \<Rightarrow> (string \<times> string) list \<Rightarrow> row list \<Rightarrow>
   (string \<times> 'f json) list \<Rightarrow> ('f, (string \<times> 'f json) list) io" where
  "publish_sam W log_path run_ts enterprise ledger results =
     (let sam_url = getenv W ''SAM_API_URL''; sam_key = getenv W ''SAM_API_KEY''
      in if truthy sam_url \<and> truthy sam_key then
           io_bind (log W log_path ''Posting to SAM.gov...'') (\<lambda>_.
           io_bind (post W (the sam_url) (the sam_key) (sam_payload run_ts enterprise ledger)) (\<lambda>res.
           io_bind (log W log_path (''SAM response: '' @ py_repr W res)) (\<lambda>_.
           io_return (dict_set results ''sam'' res))))
         else
           io_bind (log W log_path ''Skipping SAM.gov: credentials or URL not set'') (\<lambda>_.
           io_return results))"

definition report_json ::
  "string \<Rightarrow> row list \<Rightarrow> (string \<times> 'f json) list \<Rightarrow> (string \<times> string) list \<Rightarrow> 'f json" where
  "report_json run_ts ledger results enterprise =
     JObj [(''run_ts'', JStr run_ts),
           (''counts'', JObj [(''ledger_rows'', JInt (int (length ledger)))]),
           (''results'', JObj results),
           (''enterprise'', enterprise_json enterprise)]"

definition error_json :: "string list \<Rightarrow> string \<Rightarrow> 'f json" where
  "error_json missing run_ts =
     JObj [(''error'', JStr ''missing_identifiers''),
           (''missing'', JList (map JStr missing)),
           (''run_ts'', JStr run_ts)]"

text \<open>Lines 111 to 115: the warning about recommended identifiers.\<close>

definition warn_recommended :: "'f world \<Rightarrow> string \<Rightarrow> (string \<times> string) list \<Rightarrow> ('f, unit) io" where
  "warn_recommended W log_path enterprise =
     (let warn_missing = filter (\<lambda>k. \<not> truthy (dict_get enterprise k)) recommended
      in if warn_missing \<noteq> [] then
           log W log_path (''Warning: recommended enterprise identifiers missing: ''
                           @ join '', '' warn_missing
                           @ ''. Reports will proceed but may be incomplete.'')
         else io_return ())"

text \<open>Lines 117 to 186: the three targets, then the report.\<close>

definition publish_and_report ::
  "'f world \<Rightarrow> string \<Rightarrow> string \<Rightarrow> string \<Rightarrow> (string \<times> string) list \<Rightarrow> row list \<Rightarrow> ('f, int) io" where
  "publish_and_report W inp log_path run_ts enterprise ledger =
     io_bind (publish_coupa W log_path run_ts enterprise ledger []) (\<lambda>results.
     io_bind (publish_piee W log_path run_ts enterprise ledger results) (\<lambda>results.
     io_bind (publish_sam W log_path run_ts enterprise ledger results) (\<lambda>results.
     let out_report = path_join inp ''integrations_report.json''
     in io_bind (emit (WriteJson out_report (report_json run_ts ledger results enterprise))) (\<lambda>_.
        io_bind (log W log_path (''Wrote integrations_report.json ('' @ out_report @ '')'')) (\<lambda>_.
        io_return 0)))))"

text \<open>Lines 102 to 109: the gate has failed.\<close>

definition abort_missing :: "'f world \<Rightarrow> string \<Rightarrow> string \<Rightarrow> string \<Rightarrow> string list \<Rightarrow> ('f, int) io" where
  "abort_missing W inp log_path run_ts missing =
     io_bind (log W log_path (''Missing required enterprise identifiers: '' @ join '', '' missing
                              @ ''. Aborting integrations.'')) (\<lambda>_.
     let out_report = path_join inp ''integrations_report.json''
     in io_bind (emit (WriteJson out_report (error_json missing run_ts))) (\<lambda>_.
        io_raise (SysExit 3)))"

text \<open>
  \<^verbatim>\<open>run()\<close> of integrations.py, with \<^verbatim>\<open>args.input\<close> as \<open>inp\<close>; its blocks are the
  definitions above, in the order of the source.
\<close>

definition run_integrations :: "'f world \<Rightarrow> string \<Rightarrow> ('f, int) io" where
  "run_integrations W inp =
     io_bind (emit (MakeDirs inp)) (\<lambda>_.
     let log_path = path_join inp ''integrations.log'';
         ledger = load_ledger W inp;
         clearing = load_clearing W inp
     in io_bind (read_clock (utcnow_isoformat W)) (\<lambda>now.
     let run_ts = now @ ''Z'';
         enterprise = read_enterprise W;
         missing = missing_identifiers enterprise
     in if missing \<noteq> [] then abort_missing W inp log_path run_ts missing
        else
          io_bind (warn_recommended W log_path enterprise) (\<lambda>_.
          publish_and_report W inp log_path run_ts enterprise ledger)))"

section \<open>scripts/nightly_audit.py\<close>

subsection \<open>String operations the script uses\<close>

definition is_space :: "char \<Rightarrow> bool" where
  "is_space c = (c \<in> set [CHR '' '', CHR 0x09, CHR 0x0A, CHR 0x0B, CHR 0x0C, CHR 0x0D,
                            CHR 0x1C, CHR 0x1D, CHR 0x1E, CHR 0x1F])"

text \<open>\<^verbatim>\<open>s.strip()\<close>, \<^verbatim>\<open>s.lower()\<close> (on ASCII), \<^verbatim>\<open>s.rstrip('/')\<close>, \<^verbatim>\<open>s.split(',')\<close>.\<close>

definition strip :: "string \<Rightarrow> string" where
  "strip s = rev (dropWhile is_space (rev (dropWhile is_space s)))"

definition lower :: "string \<Rightarrow> string" where
  "lower s = map (\<lambda>c. let n = (of_char c :: nat)
                       in if 65 \<le> n \<and> n \<le> 90 then char_of (n + 32) else c) s"

definition rstrip_slash :: "string \<Rightarrow> string" where
  "rstrip_slash s = rev (dropWhile (\<lambda>c. c = CHR ''/'') (rev s))"

fun split_comma :: "string \<Rightarrow> string list" where
  "split_comma [] = [[]]"
| "split_comma (c # cs) =
     (if c = CHR '','' then [] # split_comma cs
      else (case split_comma cs of [] \<Rightarrow> [[c]] | w # ws \<Rightarrow> (c # w) # ws))"

text \<open>The decimal text of a number, as an f-string writes it.\<close>

fun str_of_nat :: "nat \<Rightarrow> string" where
  "str_of_nat n =
     (if n < 10 then [char_of (48 + n)]
      else str_of_nat (n div 10) @ [char_of (48 + n mod 10)])"

subsection \<open>Collaborators\<close>

text \<open>
  The mail server, the SMS provider and the HTTP client answer or raise (\<open>Inl\<close> with the
  exception's text). \<open>imap_fetch\<close> stands for the session up to the fetched messages
  (connect, login, select, search, fetch), each message a uid and its raw bytes;
  \<open>parse_from_bytes\<close> is the mail parser. Dates are a parameter \<open>'d\<close>:
  \<open>strptime_date\<close> is \<^verbatim>\<open>datetime.strptime(s, '%Y-%m-%d').date()\<close> (\<open>None\<close>: it raises),
  \<open>date_isoformat\<close> is \<^verbatim>\<open>d.isoformat()\<close>, \<open>date_dby\<close> is \<^verbatim>\<open>d.strftime('%d-%b-%Y')\<close>.
  \<open>py_int\<close> is \<^verbatim>\<open>int(s)\<close> on a string (\<open>None\<close>: it raises \<^verbatim>\<open>ValueError\<close>).
  Local file operations are taken to succeed.
\<close>

record parsed_mail =
  mail_to :: "string list option"
  mail_subject :: string
  mail_from :: string
  mail_date :: string

record sms_message =
  m_sid :: string
  m_from :: string
  m_to :: string
  m_body :: string
  m_date_sent :: string   \<comment> \<open>\<^verbatim>\<open>str(m.date_sent)\<close>\<close>

record 'f get_response = response +
  resp_json :: "string + 'f json"   \<comment> \<open>\<^verbatim>\<open>r.json()\<close>\<close>

record ('f, 'd) audit_world = host +
  utcnow_date :: "nat \<Rightarrow> 'd"
  strptime_date :: "string \<Rightarrow> 'd option"
  date_isoformat :: "'d \<Rightarrow> string"
  date_dby :: "'d \<Rightarrow> string"
  py_int :: "string \<Rightarrow> int option"
  imap_fetch :: "string option \<Rightarrow> string option \<Rightarrow> string option \<Rightarrow> int \<Rightarrow> string
                 \<Rightarrow> string + (nat \<times> string) list"
  imap_logout :: "string option"
  parse_from_bytes :: "string \<Rightarrow> string + parsed_mail"
  twilio_list :: "string \<Rightarrow> string \<Rightarrow> string \<Rightarrow> 'd \<Rightarrow> string + sms_message list"
  requests_get :: "string \<Rightarrow> headers \<Rightarrow> string + 'f get_response"
  requests_post_file :: "string \<Rightarrow> headers \<Rightarrow> string \<Rightarrow> string + nat"

record args =
  output_dir :: string
  targets :: string
  since :: "string option"

subsection \<open>The collectors\<close>

definition mail_summary :: "nat \<Rightarrow> parsed_mail \<Rightarrow> 'f json" where
  "mail_summary uid parsed =
     JObj [(''uid'', JInt (int uid)),
           (''subject'', JStr (mail_subject parsed)),
           (''from'', JStr (mail_from parsed)),
           (''to'', (case mail_to parsed of None \<Rightarrow> JNull | Some xs \<Rightarrow> JList (map JStr xs))),
           (''date'', JStr (mail_date parsed))]"

text \<open>The loop of \<^verbatim>\<open>fetch_emails\<close> (lines 41 to 50) over the fetched messages.\<close>

fun retain_messages ::
  "('f, 'd) audit_world \<Rightarrow> string list \<Rightarrow> string \<Rightarrow> (nat \<times> string) list \<Rightarrow> 'f json list
   \<Rightarrow> ('f, 'f json list) io" where
  "retain_messages W tgts out_dir [] results = io_return results"
| "retain_messages W tgts out_dir ((uid, raw) # rest) results =
     (case parse_from_bytes W raw of
        Inl e \<Rightarrow> io_raise (Raised e)
      | Inr parsed \<Rightarrow>
          let recipients = map lower (case mail_to parsed of None \<Rightarrow> [] | Some xs \<Rightarrow> xs)
          in if list_ex (\<lambda>t. t \<in> set recipients) tgts then
               io_bind (emit (WriteBytes (path_join out_dir (str_of_nat uid @ ''.eml'')) raw)) (\<lambda>_.
               retain_messages W tgts out_dir rest (results @ [mail_summary uid parsed]))
             else retain_messages W tgts out_dir rest results)"

definition fetch_emails ::
  "('f, 'd) audit_world \<Rightarrow> string option \<Rightarrow> string option \<Rightarrow> string option \<Rightarrow> int \<Rightarrow>
   string list \<Rightarrow> 'd \<Rightarrow> string \<Rightarrow> ('f, 'f json list) io" where
  "fetch_emails W imap_host user pwd port tgts since_date out_dir =
     (let criteria = date_dby W since_date
      in io_bind (emit (ImapSession imap_host user pwd port criteria)) (\<lambda>_.
         case imap_fetch W imap_host user pwd port criteria of
           Inl e \<Rightarrow> io_raise (Raised e)
         | Inr msgs \<Rightarrow>
             io_bind (retain_messages W tgts out_dir msgs []) (\<lambda>results.
             io_bind (emit ImapLogout) (\<lambda>_.
             case imap_logout W of
               Some e \<Rightarrow> io_raise (Raised e)
             | None \<Rightarrow> io_return results))))"

definition sms_json :: "sms_message \<Rightarrow> 'f json" where
  "sms_json m =
     JObj [(''sid'', JStr (m_sid m)), (''from'', JStr (m_from m)), (''to'', JStr (m_to m)),
           (''body'', JStr (m_body m)), (''date_sent'', JStr (m_date_sent m))]"

text \<open>The loop of \<^verbatim>\<open>fetch_twilio_messages\<close> (lines 61 to 65) over the phone numbers.\<close>

fun list_messages ::
  "('f, 'd) audit_world \<Rightarrow> string \<Rightarrow> string \<Rightarrow> 'd \<Rightarrow> string list \<Rightarrow> 'f json list
   \<Rightarrow> ('f, 'f json list) io" where
  "list_messages W sid token since_date [] results = io_return results"
| "list_messages W sid token since_date (num # nums) results =
     io_bind (emit (TwilioList sid token num)) (\<lambda>_.
     case twilio_list W sid token num since_date of
       Inl e \<Rightarrow> io_raise (Raised e)
     | Inr msgs \<Rightarrow> list_messages W sid token since_date nums (results @ map sms_json msgs))"

definition fetch_twilio_messages ::
  "('f, 'd) audit_world \<Rightarrow> string option \<Rightarrow> string option \<Rightarrow> string list \<Rightarrow> 'd \<Rightarrow> string
   \<Rightarrow> ('f, 'f json list) io" where
  "fetch_twilio_messages W sid token phone_numbers since_date out_dir =
     (if \<not> truthy sid \<or> \<not> truthy token then io_return []
      else
        io_bind (list_messages W (the sid) (the token) since_date phone_numbers []) (\<lambda>results.
        io_bind (emit (WriteJson (path_join out_dir ''sms.json'') (JList results))) (\<lambda>_.
        io_return results)))"

text \<open>\<^verbatim>\<open>fetch_apple_mdm\<close> returns \<^verbatim>\<open>None\<close> (here \<open>JNull\<close>), the decoded body, or an error dict.\<close>

definition fetch_apple_mdm ::
  "('f, 'd) audit_world \<Rightarrow> string option \<Rightarrow> string option \<Rightarrow> string \<Rightarrow> ('f, 'f json) io" where
  "fetch_apple_mdm W api_url api_key out_dir =
     (if \<not> truthy api_url \<or> \<not> truthy api_key then io_return JNull
      else
        let headers = [(''Authorization'', ''Bearer '' @ the api_key), (''Accept'', ''application/json'')];
            url = rstrip_slash (the api_url) @ ''/devices''
        in try_except
             (io_bind (emit (HttpGet url headers)) (\<lambda>_.
              case requests_get W url headers of
                Inl e \<Rightarrow> io_raise (Raised e)
              | Inr r \<Rightarrow>
                  if ok r then
                    (case resp_json r of
                       Inl e \<Rightarrow> io_raise (Raised e)
                     | Inr devices \<Rightarrow>
                         io_bind (emit (WriteJson (path_join out_dir ''devices.json'') devices)) (\<lambda>_.
                         io_return devices))
                  else io_return (JObj [(''error'', JStr (''status '' @ str_of_nat (status_code r))),
                                        (''body'', JStr (resp_text r))])))
             (\<lambda>e. io_return (JObj [(''error'', JStr e)])))"

subsection \<open>The run\<close>

text \<open>Line 142: \<^verbatim>\<open>len(devices) if isinstance(devices, list) else 0\<close>.\<close>

definition devices_count :: "'f json \<Rightarrow> int" where
  "devices_count devices = (case devices of JList xs \<Rightarrow> int (length xs) | _ \<Rightarrow> 0)"

text \<open>Lines 119 to 122.\<close>

definition phone_numbers_of :: "string \<Rightarrow> string list" where
  "phone_numbers_of phone_nums_env =
     (let phone_nums = map strip (filter (\<lambda>p. strip p \<noteq> []) (split_comma phone_nums_env))
      in if ''2704018770'' \<notin> set phone_nums then phone_nums @ [''2704018770''] else phone_nums)"

definition index_json :: "string \<Rightarrow> string \<Rightarrow> 'f json list \<Rightarrow> 'f json list \<Rightarrow> 'f json \<Rightarrow> 'f json" where
  "index_json run_from now emails sms devices =
     JObj [(''run_from'', JStr run_from),
           (''generated_ts'', JStr (now @ ''Z'')),
           (''emails_count'', JInt (int (length emails))),
           (''sms_count'', JInt (int (length sms))),
           (''devices_count'', JInt (devices_count devices))]"

definition invalid_since_message :: string where
  "invalid_since_message = ''Invalid --since date format; use YYYY-MM-DD'' @ newline"

text \<open>Lines 97 to 105: the start date.\<close>

definition since_date :: "('f, 'd) audit_world \<Rightarrow> args \<Rightarrow> ('f, 'd) io" where
  "since_date W a =
     (if truthy (since a) then
        (case strptime_date W (the (since a)) of
           None \<Rightarrow> io_bind (emit (Stderr invalid_since_message)) (\<lambda>_. io_raise (SysExit 2))
         | Some d \<Rightarrow> io_return d)
      else read_clock (utcnow_date W))"

text \<open>Lines 146 to 156: the optional upload of the index.\<close>

definition upload_index :: "('f, 'd) audit_world \<Rightarrow> string \<Rightarrow> ('f, unit) io" where
  "upload_index W index_path =
     (let cloud_url = getenv W ''CLOUD_ARCHIVE_URL'';
          cloud_key = getenv W ''CLOUD_ARCHIVE_KEY''
      in if truthy cloud_url \<and> truthy cloud_key then
           (let headers = [(''Authorization'', ''Bearer '' @ the cloud_key)]
            in io_bind (emit (HttpPostFile (the cloud_url) headers index_path)) (\<lambda>_.
               case requests_post_file W (the cloud_url) headers index_path of
                 Inr status \<Rightarrow> emit (Stdout (''Upload status '' @ str_of_nat status @ newline))
               | Inl e \<Rightarrow> emit (Stdout (''Upload failed '' @ e @ newline))))
         else io_return ())"

text \<open>
  \<^verbatim>\<open>run()\<close> of nightly_audit.py on the parsed command line. \<^verbatim>\<open>int(os.getenv('IMAP_PORT',
  '993'))\<close> of line 115 raises \<^verbatim>\<open>ValueError\<close> on a value that is no number.
\<close>

definition run_nightly_audit :: "('f, 'd) audit_world \<Rightarrow> args \<Rightarrow> ('f, unit) io" where
  "run_nightly_audit W a =
     (let out_base = output_dir a;
          tgts = map (\<lambda>t. lower (strip t)) (split_comma (targets a))
      in io_bind (emit (MakeDirs out_base)) (\<lambda>_.
         let daily_root = path_join out_base ''daily''
         in io_bind (emit (MakeDirs daily_root)) (\<lambda>_.
         io_bind (since_date W a) (\<lambda>since_dt.
         let run_folder = path_join daily_root (''from-'' @ date_isoformat W since_dt)
         in io_bind (emit (MakeDirs run_folder)) (\<lambda>_.
         let imap_host = getenv W ''IMAP_HOST'';
             imap_user = getenv W ''IMAP_USER'';
             imap_pass = getenv W ''IMAP_PASSWORD''
         in case py_int W (case getenv W ''IMAP_PORT'' of None \<Rightarrow> ''993'' | Some v \<Rightarrow> v) of
              None \<Rightarrow> io_raise (Raised ''ValueError'')
            | Some imap_port \<Rightarrow>
         let twilio_sid = getenv W ''TWILIO_SID'';
             twilio_token = getenv W ''TWILIO_TOKEN'';
             phone_nums = phone_numbers_of (getenv_or_empty W ''PHONE_NUMBERS'');
             apple_mdm_url = getenv W ''APPLE_MDM_API_URL'';
             apple_mdm_key = getenv W ''APPLE_MDM_API_KEY''
         in io_bind (try_except
                       (fetch_emails W imap_host imap_user imap_pass imap_port tgts since_dt run_folder)
                       (\<lambda>e. io_bind (emit (Stdout (''Email fetch failed '' @ e @ newline))) (\<lambda>_.
                            io_return []))) (\<lambda>emails.
            io_bind (fetch_twilio_messages W twilio_sid twilio_token phone_nums since_dt run_folder) (\<lambda>sms.
            io_bind (fetch_apple_mdm W apple_mdm_url apple_mdm_key run_folder) (\<lambda>devices.
            io_bind (read_clock (utcnow_isoformat W)) (\<lambda>now.
            let index_path = path_join run_folder ''index.json''
            in io_bind (emit (WriteJson index_path
                                (index_json (date_isoformat W since_dt) now emails sms devices))) (\<lambda>_.
            io_bind (upload_index W index_path) (\<lambda>_.
            emit (Stdout (''Nightly audit done'' @ newline)))))))))))))"

section \<open>Observing a run\<close>

text \<open>The JSON documents a run writes, with their paths, and the effects that reach the network.\<close>

fun json_written :: "'f effect \<Rightarrow> (string \<times> 'f json) list" where
  "json_written (WriteJson p j) = [(p, j)]"
| "json_written _ = []"

definition json_writes :: "'f effect list \<Rightarrow> (string \<times> 'f json) list" where
  "json_writes es = concat (map json_written es)"

fun is_network :: "'f effect \<Rightarrow> bool" where
  "is_network (HttpPost u h p) = True"
| "is_network (HttpGet u h) = True"
| "is_network (HttpPostFile u h p) = True"
| "is_network (ImapSession a b c d e) = True"
| "is_network ImapLogout = True"
| "is_network (TwilioList a b c) = True"
| "is_network _ = False"

section \<open>Concrete collaborators for the instances\<close>

text \<open>
  A world to run the model on: floats are integers, \<^verbatim>\<open>float\<close> and \<^verbatim>\<open>int\<close> read unsigned
  decimal numerals and reject every other string, the clock stands still, every POST is
  answered with status 200.
\<close>

definition sample_number :: "string \<Rightarrow> int option" where
  "sample_number s =
     (if s \<noteq> [] \<and> list_all (\<lambda>c. 48 \<le> (of_char c :: nat) \<and> (of_char c :: nat) \<le> 57) s
      then Some (int (foldl (\<lambda>n c. 10 * n + (of_char c - 48)) 0 s))
      else None)"

definition sample_world :: "(string \<times> string) list \<Rightarrow> (string \<times> row list) list \<Rightarrow> int world" where
  "sample_world env files =
     \<lparr>getenv = map_of env,
      utcnow_isoformat = (\<lambda>k. ''2024-05-01T06:00:00''),
      csv_file = map_of files,
      json_file = (\<lambda>p. None),
      requests_post = (\<lambda>url h p. Inr \<lparr>ok = True, status_code = 200, resp_text = ''accepted''\<rparr>),
      py_float = sample_number,
      float_zero = 0,
      float_sum = sum_list,
      py_repr = (\<lambda>j. ''{...}'')\<rparr>"

text \<open>
  The same for the audit: dates are their ISO text, \<^verbatim>\<open>strptime\<close> accepts the strings of
  the shape dddd-dd-dd and rejects every other. The mailbox, the SMS provider and the answer
  of the device endpoint are the parameters.
\<close>

definition is_digit :: "char \<Rightarrow> bool" where
  "is_digit c = (48 \<le> (of_char c :: nat) \<and> (of_char c :: nat) \<le> 57)"

definition sample_date :: "string \<Rightarrow> string option" where
  "sample_date s =
     (if length s = 10 \<and> s ! 4 = CHR ''-'' \<and> s ! 7 = CHR ''-'' \<and>
         list_all is_digit (take 4 s @ take 2 (drop 5 s) @ drop 8 s)
      then Some s else None)"

definition sample_audit_world ::
  "(string \<times> string) list \<Rightarrow> string + (nat \<times> string) list \<Rightarrow> (string \<Rightarrow> string + sms_message list) \<Rightarrow>
   string + int get_response \<Rightarrow> (int, string) audit_world" where
  "sample_audit_world env mailbox sms_of device_answer =
     \<lparr>getenv = map_of env,
      utcnow_isoformat = (\<lambda>k. ''2024-05-01T06:00:00''),
      utcnow_date = (\<lambda>k. ''2024-05-01''),
      strptime_date = sample_date,
      date_isoformat = (\<lambda>d. d),
      date_dby = (\<lambda>d. d),
      py_int = sample_number,
      imap_fetch = (\<lambda>h u p port c. mailbox),
      imap_logout = None,
      parse_from_bytes = (\<lambda>raw. Inr \<lparr>mail_to = Some [raw], mail_subject = ''subject'',
                                        mail_from = ''sender@example.org'', mail_date = ''2024-05-01''\<rparr>),
      twilio_list = (\<lambda>sid tok num d. sms_of num),
      requests_get = (\<lambda>url h. device_answer),
      requests_post_file = (\<lambda>url h p. Inr 200)\<rparr>"

text \<open>
  \<open>io_sat P R m\<close>: whatever the state, every effect \<open>m\<close> adds satisfies \<open>P\<close>, and a value
  it returns satisfies \<open>R\<close>.
\<close>

definition io_sat :: "('f effect \<Rightarrow> bool) \<Rightarrow> ('a \<Rightarrow> bool) \<Rightarrow> ('f, 'a) io \<Rightarrow> bool" where
  "io_sat P R m =
     (\<forall>s. \<exists>es. trace (snd (m s)) = trace s @ es \<and> list_all P es \<and>
               (\<forall>x. fst (m s) = Inr x \<longrightarrow> R x))"



text \<open>The calls to the SMS provider and to the device endpoint.\<close>

fun is_sms_call :: "'f effect \<Rightarrow> bool" where
  "is_sms_call (TwilioList a b c) = True"
| "is_sms_call _ = False"

fun is_device_call :: "'f effect \<Rightarrow> bool" where
  "is_device_call (HttpGet u h) = True"
| "is_device_call _ = False"

section \<open>Running the model\<close>

lemma json_writes_simps [simp]:
  "json_writes [] = []"
  "json_writes (e # es) = json_written e @ json_writes es"
  "json_writes (es @ fs) = json_writes es @ json_writes fs"
  by (simp_all add: json_writes_def)

lemma io_bind_Inr: "m s = (Inr x, s') \<Longrightarrow> io_bind m k s = k x s'"
  by (simp add: io_bind_def)

lemma io_bind_Inl: "m s = (Inl a, s') \<Longrightarrow> io_bind m k s = (Inl a, s')"
  by (simp add: io_bind_def)

lemma io_bind_emit: "io_bind (emit e) k s = k () (s\<lparr>trace := trace s @ [e]\<rparr>)"
  by (simp add: io_bind_def emit_def)

lemma io_bind_read_clock:
  "io_bind (read_clock c) k s = k (c (ticks s)) (s\<lparr>ticks := Suc (ticks s)\<rparr>)"
  by (simp add: io_bind_def read_clock_def)

lemma io_bind_return: "io_bind (io_return x) k s = k x s"
  by (simp add: io_bind_def io_return_def)

lemma io_bind_raise: "io_bind (io_raise a) k s = (Inl a, s)"
  by (simp add: io_bind_def io_raise_def)

lemma io_bind_assoc: "io_bind (io_bind m f) g = io_bind m (\<lambda>x. io_bind (f x) g)"
  by (auto simp add: io_bind_def fun_eq_iff split: prod.splits sum.splits)

lemma log_apply:
  "log W lp msg s =
     (Inr (), s\<lparr>trace := trace s @
                   [AppendText lp (utcnow_isoformat W (ticks s) @ ''Z'' @ '' '' @ msg @ newline),
                    Stdout (utcnow_isoformat W (ticks s) @ ''Z'' @ '' '' @ msg @ newline)],
                 ticks := Suc (ticks s)\<rparr>)"
  by (simp add: log_def io_bind_def emit_def read_clock_def Let_def)

lemma io_bind_log:
  "io_bind (log W lp msg) k s =
     k () (s\<lparr>trace := trace s @
                [AppendText lp (utcnow_isoformat W (ticks s) @ ''Z'' @ '' '' @ msg @ newline),
                 Stdout (utcnow_isoformat W (ticks s) @ ''Z'' @ '' '' @ msg @ newline)],
              ticks := Suc (ticks s)\<rparr>)"
  by (simp add: io_bind_def log_apply)

lemmas io_exec = io_bind_emit io_bind_read_clock io_bind_return io_bind_raise io_bind_log
  io_bind_assoc

lemmas io_defs = io_bind_def io_return_def io_raise_def emit_def read_clock_def try_except_def

section \<open>The identifier gate\<close>

lemma enterprise_uei: "dict_get (read_enterprise W) ''uei'' = Some (getenv_or_empty W ''UEI'')"
  by (simp add: read_enterprise_def enterprise_fields_def dict_get_def)

lemma enterprise_cage: "dict_get (read_enterprise W) ''cage'' = Some (getenv_or_empty W ''CAGE_CODE'')"
  by (simp add: read_enterprise_def enterprise_fields_def dict_get_def)

lemma truthy_getenv_or_empty: "truthy (Some (getenv_or_empty W k)) = truthy (getenv W k)"
  by (simp add: truthy_def getenv_or_empty_def split: option.splits)

lemma missing_identifiers_env:
  "missing_identifiers (read_enterprise W) =
     (if truthy (getenv W ''UEI'') then [] else [''UEI'']) @
     (if truthy (getenv W ''CAGE_CODE'') then [] else [''CAGE_CODE''])"
  by (simp add: missing_identifiers_def enterprise_uei enterprise_cage truthy_getenv_or_empty)







section \<open>The publish targets\<close>




lemma warn_recommended_returns:
  "\<exists>s'. warn_recommended W lp ent s = (Inr (), s') \<and>
      json_writes (trace s') = json_writes (trace s)"
  by (simp add: warn_recommended_def Let_def log_apply io_return_def)






section \<open>The PIEE total\<close>

text \<open>A row without an amount, or with an empty one, enters the sum as \<^verbatim>\<open>float(0)\<close>.\<close>

lemma amount_float_blank:
  "r ''amount'' = None \<or> r ''amount'' = Some [] \<Longrightarrow> amount_float W r = Some (float_zero W)"
  by (auto simp: amount_float_def)

text \<open>A row whose amount \<^verbatim>\<open>float\<close> rejects makes the whole sum raise.\<close>

lemma total_amount_raises:
  "r \<in> set ledger \<Longrightarrow> r ''amount'' = Some s \<Longrightarrow> s \<noteq> [] \<Longrightarrow> py_float W s = None \<Longrightarrow>
   total_amount W ledger = Inl ''ValueError''"
proof -
  assume a: "r \<in> set ledger" "r ''amount'' = Some s" "s \<noteq> []" "py_float W s = None"
  have "amount_float W r = None" using a by (simp add: amount_float_def)
  with a(1) have "amount_floats W ledger = None"
    by (induction ledger) (auto split: option.splits)
  then show ?thesis by (simp add: total_amount_def)
qed

lemmas integrations_defs = run_integrations_def abort_missing_def warn_recommended_def
  publish_and_report_def publish_coupa_def publish_piee_def publish_sam_def post_def
  total_amount_def amount_float_def load_ledger_def load_clearing_def read_enterprise_def
  enterprise_fields_def missing_identifiers_def recommended_def dict_get_def truthy_def
  path_join_def getenv_or_empty_def

text \<open>
  Claim C3, at an input where the code departs from it. The ledger has one row whose
  amount is the string abc, the identifiers and the PIEE endpoint are configured. The sum
  of line 146 raises ValueError instead of counting the row as 0; nothing catches it, so
  the run ends with an uncaught exception (exit status 1) after it has logged the PIEE
  post, without sending it and without writing any report.
\<close>

theorem non_numeric_amount_aborts_run:
  "total_amount (sample_world [] []) [map_of [(''message_id'', ''m1''), (''amount'', ''abc'')]]
     = Inl ''ValueError'' \<and>
   fst (run_integrations
     (sample_world [(''UEI'', ''U1''), (''CAGE_CODE'', ''1AB23''),
                    (''PIEE_API_URL'', ''https://piee.example/api''), (''PIEE_API_KEY'', ''k'')]
                   [(''out/ledger.csv'', [map_of [(''message_id'', ''m1''), (''amount'', ''abc'')]])])
     ''out'' init) = Inl (Raised ''ValueError'') \<and>
   exit_status (run_integrations
     (sample_world [(''UEI'', ''U1''), (''CAGE_CODE'', ''1AB23''),
                    (''PIEE_API_URL'', ''https://piee.example/api''), (''PIEE_API_KEY'', ''k'')]
                   [(''out/ledger.csv'', [map_of [(''message_id'', ''m1''), (''amount'', ''abc'')]])])
     ''out'' init) = 1 \<and>
   json_writes (effects (run_integrations
     (sample_world [(''UEI'', ''U1''), (''CAGE_CODE'', ''1AB23''),
                    (''PIEE_API_URL'', ''https://piee.example/api''), (''PIEE_API_KEY'', ''k'')]
                   [(''out/ledger.csv'', [map_of [(''message_id'', ''m1''), (''amount'', ''abc'')]])])
     ''out'' init)) = [] \<and>
   filter is_network (effects (run_integrations
     (sample_world [(''UEI'', ''U1''), (''CAGE_CODE'', ''1AB23''),
                    (''PIEE_API_URL'', ''https://piee.example/api''), (''PIEE_API_KEY'', ''k'')]
                   [(''out/ledger.csv'', [map_of [(''message_id'', ''m1''), (''amount'', ''abc'')]])])
     ''out'' init)) = []"
  by (simp add: integrations_defs sample_world_def sample_number_def io_exec init_def Let_def
      exit_status_def effects_def)

text \<open>A target without its URL or its key: one skip line, no request, the results unchanged.\<close>

lemma publish_coupa_skips:
  "\<not> (truthy (getenv W ''COUPA_API_URL'') \<and> truthy (getenv W ''COUPA_API_KEY'')) \<Longrightarrow>
   publish_coupa W lp ts ent led res s =
     (Inr res,
      s\<lparr>trace := trace s @
          [AppendText lp (utcnow_isoformat W (ticks s) @ ''Z'' @ '' '' @
                          ''Skipping Coupa: credentials or URL not set'' @ newline),
           Stdout (utcnow_isoformat W (ticks s) @ ''Z'' @ '' '' @
                   ''Skipping Coupa: credentials or URL not set'' @ newline)],
        ticks := Suc (ticks s)\<rparr>)"
  by (auto simp: publish_coupa_def Let_def io_exec io_return_def)

lemma publish_piee_skips:
  "\<not> (truthy (getenv W ''PIEE_API_URL'') \<and> truthy (getenv W ''PIEE_API_KEY'')) \<Longrightarrow>
   publish_piee W lp ts ent led res s =
     (Inr res,
      s\<lparr>trace := trace s @
          [AppendText lp (utcnow_isoformat W (ticks s) @ ''Z'' @ '' '' @
                          ''Skipping PIEE: credentials or URL not set'' @ newline),
           Stdout (utcnow_isoformat W (ticks s) @ ''Z'' @ '' '' @
                   ''Skipping PIEE: credentials or URL not set'' @ newline)],
        ticks := Suc (ticks s)\<rparr>)"
  by (auto simp: publish_piee_def Let_def io_exec io_return_def)

lemma publish_sam_skips:
  "\<not> (truthy (getenv W ''SAM_API_URL'') \<and> truthy (getenv W ''SAM_API_KEY'')) \<Longrightarrow>
   publish_sam W lp ts ent led res s =
     (Inr res,
      s\<lparr>trace := trace s @
          [AppendText lp (utcnow_isoformat W (ticks s) @ ''Z'' @ '' '' @
                          ''Skipping SAM.gov: credentials or URL not set'' @ newline),
           Stdout (utcnow_isoformat W (ticks s) @ ''Z'' @ '' '' @
                   ''Skipping SAM.gov: credentials or URL not set'' @ newline)],
        ticks := Suc (ticks s)\<rparr>)"
  by (auto simp: publish_sam_def Let_def io_exec io_return_def)

text \<open>The keys of the results: a block adds its own key at most, and none when it skips.\<close>

lemma dict_set_keys: "fst ` set (dict_set d k v) = insert k (fst ` set d)"
proof (induction d)
  case Nil
  show ?case by simp
next
  case (Cons x d)
  obtain k' v' where x: "x = (k', v')" by (cases x)
  show ?case
  proof (cases "k' = k")
    case True
    then show ?thesis by (simp add: x)
  next
    case False
    then show ?thesis using Cons.IH by (simp add: x insert_commute)
  qed
qed

lemma publish_coupa_keys:
  "\<exists>res' s'. publish_coupa W lp ts ent led res s = (Inr res', s') \<and>
      json_writes (trace s') = json_writes (trace s) \<and>
      fst ` set res' \<subseteq> insert ''coupa'' (fst ` set res) \<and>
      (\<not> (truthy (getenv W ''COUPA_API_URL'') \<and> truthy (getenv W ''COUPA_API_KEY'')) \<longrightarrow> res' = res)"
  by (auto simp add: publish_coupa_def post_def Let_def io_defs log_apply dict_set_keys
      split: sum.splits)

lemma publish_piee_keys:
  "total_amount W led = Inr t \<Longrightarrow>
   \<exists>res' s'. publish_piee W lp ts ent led res s = (Inr res', s') \<and>
      json_writes (trace s') = json_writes (trace s) \<and>
      fst ` set res' \<subseteq> insert ''piee'' (fst ` set res) \<and>
      (\<not> (truthy (getenv W ''PIEE_API_URL'') \<and> truthy (getenv W ''PIEE_API_KEY'')) \<longrightarrow> res' = res)"
  by (auto simp add: publish_piee_def post_def Let_def io_defs log_apply dict_set_keys
      split: sum.splits)

lemma publish_sam_keys:
  "\<exists>res' s'. publish_sam W lp ts ent led res s = (Inr res', s') \<and>
      json_writes (trace s') = json_writes (trace s) \<and>
      fst ` set res' \<subseteq> insert ''sam'' (fst ` set res) \<and>
      (\<not> (truthy (getenv W ''SAM_API_URL'') \<and> truthy (getenv W ''SAM_API_KEY'')) \<longrightarrow> res' = res)"
  by (auto simp add: publish_sam_def post_def Let_def io_defs log_apply dict_set_keys
      split: sum.splits)

lemma publish_and_report_keys:
  assumes "total_amount W led = Inr t"
  shows "\<exists>results s'. publish_and_report W inp lp ts ent led s = (Inr 0, s') \<and>
           json_writes (trace s') = json_writes (trace s) @
             [(path_join inp ''integrations_report.json'', report_json ts led results ent)] \<and>
           (\<not> (truthy (getenv W ''COUPA_API_URL'') \<and> truthy (getenv W ''COUPA_API_KEY'')) \<longrightarrow>
              ''coupa'' \<notin> fst ` set results) \<and>
           (\<not> (truthy (getenv W ''PIEE_API_URL'') \<and> truthy (getenv W ''PIEE_API_KEY'')) \<longrightarrow>
              ''piee'' \<notin> fst ` set results) \<and>
           (\<not> (truthy (getenv W ''SAM_API_URL'') \<and> truthy (getenv W ''SAM_API_KEY'')) \<longrightarrow>
              ''sam'' \<notin> fst ` set results)"
proof -
  obtain r3 s3 where s3: "publish_coupa W lp ts ent led [] s = (Inr r3, s3)"
      "json_writes (trace s3) = json_writes (trace s)"
      "fst ` set r3 \<subseteq> {''coupa''}"
      "\<not> (truthy (getenv W ''COUPA_API_URL'') \<and> truthy (getenv W ''COUPA_API_KEY'')) \<longrightarrow> r3 = []"
    using publish_coupa_keys[of W lp ts ent led "[]" s] by auto
  obtain r4 s4 where s4: "publish_piee W lp ts ent led r3 s3 = (Inr r4, s4)"
      "json_writes (trace s4) = json_writes (trace s3)"
      "fst ` set r4 \<subseteq> insert ''piee'' (fst ` set r3)"
      "\<not> (truthy (getenv W ''PIEE_API_URL'') \<and> truthy (getenv W ''PIEE_API_KEY'')) \<longrightarrow> r4 = r3"
    using publish_piee_keys[OF assms, of lp ts ent r3 s3] by auto
  obtain r5 s5 where s5: "publish_sam W lp ts ent led r4 s4 = (Inr r5, s5)"
      "json_writes (trace s5) = json_writes (trace s4)"
      "fst ` set r5 \<subseteq> insert ''sam'' (fst ` set r4)"
      "\<not> (truthy (getenv W ''SAM_API_URL'') \<and> truthy (getenv W ''SAM_API_KEY'')) \<longrightarrow> r5 = r4"
    using publish_sam_keys[of W lp ts ent led r4 s4] by auto
  let ?line = "utcnow_isoformat W (ticks s5) @ ''Z'' @ '' '' @
      (''Wrote integrations_report.json ('' @ path_join inp ''integrations_report.json'' @ '')'') @ newline"
  let ?s6 = "s5\<lparr>trace := trace s5 @ [WriteJson (path_join inp ''integrations_report.json'')
                        (report_json ts led r5 ent)] @ [AppendText lp ?line, Stdout ?line],
                ticks := Suc (ticks s5)\<rparr>"
  have eq: "publish_and_report W inp lp ts ent led s = (Inr 0, ?s6)"
    unfolding publish_and_report_def Let_def
    by (simp only: io_bind_Inr[where m = "publish_coupa W lp ts ent led []", OF s3(1)]
          io_bind_Inr[where m = "publish_piee W lp ts ent led r3", OF s4(1)]
          io_bind_Inr[where m = "publish_sam W lp ts ent led r4", OF s5(1)])
       (simp add: io_exec io_return_def)
  have jw: "json_writes (trace ?s6) = json_writes (trace s) @
             [(path_join inp ''integrations_report.json'', report_json ts led r5 ent)]"
    using s3(2) s4(2) s5(2) by simp
  have sub: "fst ` set r5 \<subseteq> insert ''sam'' (insert ''piee'' (fst ` set r3))"
    using s4(3) s5(3) by blast
  have k1: "\<not> (truthy (getenv W ''COUPA_API_URL'') \<and> truthy (getenv W ''COUPA_API_KEY'')) \<longrightarrow>
              ''coupa'' \<notin> fst ` set r5"
  proof
    assume "\<not> (truthy (getenv W ''COUPA_API_URL'') \<and> truthy (getenv W ''COUPA_API_KEY''))"
    then have "r3 = []" using s3(4) by blast
    then have "fst ` set r5 \<subseteq> {''sam'', ''piee''}" using sub by simp
    then show "''coupa'' \<notin> fst ` set r5" by auto
  qed
  have k2: "\<not> (truthy (getenv W ''PIEE_API_URL'') \<and> truthy (getenv W ''PIEE_API_KEY'')) \<longrightarrow>
              ''piee'' \<notin> fst ` set r5"
  proof
    assume "\<not> (truthy (getenv W ''PIEE_API_URL'') \<and> truthy (getenv W ''PIEE_API_KEY''))"
    then have "r4 = r3" using s4(4) by blast
    then have "fst ` set r5 \<subseteq> {''sam'', ''coupa''}" using s5(3) s3(3) by auto
    then show "''piee'' \<notin> fst ` set r5" by auto
  qed
  have k3: "\<not> (truthy (getenv W ''SAM_API_URL'') \<and> truthy (getenv W ''SAM_API_KEY'')) \<longrightarrow>
              ''sam'' \<notin> fst ` set r5"
  proof
    assume "\<not> (truthy (getenv W ''SAM_API_URL'') \<and> truthy (getenv W ''SAM_API_KEY''))"
    then have "r5 = r4" using s5(4) by blast
    then have "fst ` set r5 \<subseteq> {''piee'', ''coupa''}" using s4(3) s3(3) by auto
    then show "''sam'' \<notin> fst ` set r5" by auto
  qed
  show ?thesis using eq jw k1 k2 k3 by blast
qed

text \<open>
  The whole run when the gate passes and the amounts can be summed: it returns, the report
  is the one document written, and a target without its URL or its key has no entry in the
  report's results.
\<close>

lemma run_integrations_skipped_targets_absent:
  assumes "truthy (getenv W ''UEI'')" "truthy (getenv W ''CAGE_CODE'')"
    and "total_amount W (load_ledger W inp) = Inr t"
  shows "\<exists>results s'. run_integrations W inp init = (Inr 0, s') \<and>
           json_writes (trace s') =
             [(path_join inp ''integrations_report.json'',
               report_json (utcnow_isoformat W 0 @ ''Z'') (load_ledger W inp) results (read_enterprise W))] \<and>
           (\<not> (truthy (getenv W ''COUPA_API_URL'') \<and> truthy (getenv W ''COUPA_API_KEY'')) \<longrightarrow>
              ''coupa'' \<notin> fst ` set results) \<and>
           (\<not> (truthy (getenv W ''PIEE_API_URL'') \<and> truthy (getenv W ''PIEE_API_KEY'')) \<longrightarrow>
              ''piee'' \<notin> fst ` set results) \<and>
           (\<not> (truthy (getenv W ''SAM_API_URL'') \<and> truthy (getenv W ''SAM_API_KEY'')) \<longrightarrow>
              ''sam'' \<notin> fst ` set results)"
proof -
  let ?lp = "path_join inp ''integrations.log''"
  let ?ts = "utcnow_isoformat W 0 @ ''Z''"
  let ?ent = "read_enterprise W"
  let ?led = "load_ledger W inp"
  let ?s1 = "\<lparr>trace = [MakeDirs inp], ticks = Suc 0\<rparr> :: 'a st"
  have m: "missing_identifiers ?ent = []"
    using assms(1,2) by (simp add: missing_identifiers_env)
  obtain s2 where s2: "warn_recommended W ?lp ?ent ?s1 = (Inr (), s2)" "json_writes (trace s2) = []"
    using warn_recommended_returns[of W ?lp ?ent ?s1] by auto
  obtain results s' where s': "publish_and_report W inp ?lp ?ts ?ent ?led s2 = (Inr 0, s')"
     "json_writes (trace s') = json_writes (trace s2) @
             [(path_join inp ''integrations_report.json'', report_json ?ts ?led results ?ent)]"
     "\<not> (truthy (getenv W ''COUPA_API_URL'') \<and> truthy (getenv W ''COUPA_API_KEY'')) \<longrightarrow>
              ''coupa'' \<notin> fst ` set results"
     "\<not> (truthy (getenv W ''PIEE_API_URL'') \<and> truthy (getenv W ''PIEE_API_KEY'')) \<longrightarrow>
              ''piee'' \<notin> fst ` set results"
     "\<not> (truthy (getenv W ''SAM_API_URL'') \<and> truthy (getenv W ''SAM_API_KEY'')) \<longrightarrow>
              ''sam'' \<notin> fst ` set results"
    using publish_and_report_keys[OF assms(3), of inp ?lp ?ts ?ent s2] by blast
  have "run_integrations W inp init =
          io_bind (warn_recommended W ?lp ?ent) (\<lambda>_. publish_and_report W inp ?lp ?ts ?ent ?led) ?s1"
    unfolding run_integrations_def
    by (simp add: m Let_def init_def io_exec)
  also have "\<dots> = (Inr 0, s')"
    by (simp only: io_bind_Inr[where m = "warn_recommended W ?lp ?ent", OF s2(1)] s'(1))
  finally have r: "run_integrations W inp init = (Inr 0, s')" .
  have jw: "json_writes (trace s') =
             [(path_join inp ''integrations_report.json'', report_json ?ts ?led results ?ent)]"
    using s'(2) s2(2) by simp
  show ?thesis using r jw s'(3,4,5) by blast
qed

text \<open>
  Claim C6, at an input where the code departs from it. The gate passes, Coupa has a URL
  and no key, SAM.gov is not configured, PIEE is, and the one ledger row has the amount
  n/a. Coupa is skipped with its log line and no request, as the claim says; but the run
  does not exit with status 0: the PIEE block raises ValueError on the amount and the
  process ends with status 1, and no report is written at all.
\<close>

theorem skipped_target_run_can_exit_1:
  "exit_status (run_integrations
     (sample_world [(''UEI'', ''U7''), (''CAGE_CODE'', ''9QW12''),
                    (''COUPA_API_URL'', ''https://coupa.example/api''),
                    (''PIEE_API_URL'', ''https://piee.example/v2''), (''PIEE_API_KEY'', ''secret'')]
                   [(''drop/ledger.csv'', [map_of [(''message_id'', ''m9''), (''amount'', ''n/a'')]])])
     ''drop'' init) = 1 \<and>
   json_writes (effects (run_integrations
     (sample_world [(''UEI'', ''U7''), (''CAGE_CODE'', ''9QW12''),
                    (''COUPA_API_URL'', ''https://coupa.example/api''),
                    (''PIEE_API_URL'', ''https://piee.example/v2''), (''PIEE_API_KEY'', ''secret'')]
                   [(''drop/ledger.csv'', [map_of [(''message_id'', ''m9''), (''amount'', ''n/a'')]])])
     ''drop'' init)) = [] \<and>
   filter is_network (effects (run_integrations
     (sample_world [(''UEI'', ''U7''), (''CAGE_CODE'', ''9QW12''),
                    (''COUPA_API_URL'', ''https://coupa.example/api''),
                    (''PIEE_API_URL'', ''https://piee.example/v2''), (''PIEE_API_KEY'', ''secret'')]
                   [(''drop/ledger.csv'', [map_of [(''message_id'', ''m9''), (''amount'', ''n/a'')]])])
     ''drop'' init)) = [] \<and>
   Stdout (''2024-05-01T06:00:00Z Skipping Coupa: credentials or URL not set'' @ newline)
     \<in> set (effects (run_integrations
     (sample_world [(''UEI'', ''U7''), (''CAGE_CODE'', ''9QW12''),
                    (''COUPA_API_URL'', ''https://coupa.example/api''),
                    (''PIEE_API_URL'', ''https://piee.example/v2''), (''PIEE_API_KEY'', ''secret'')]
                   [(''drop/ledger.csv'', [map_of [(''message_id'', ''m9''), (''amount'', ''n/a'')]])])
     ''drop'' init))"
  by (simp add: integrations_defs sample_world_def sample_number_def io_exec init_def Let_def
      exit_status_def effects_def)

section \<open>Effects of the audit run\<close>

text \<open>
  Rules for \<open>io_sat\<close>, one for each way the model builds a computation.
\<close>

lemma io_sat_return: "R x \<Longrightarrow> io_sat P R (io_return x)"
  by (simp add: io_sat_def io_return_def)

lemma io_sat_raise: "io_sat P R (io_raise a)"
  by (simp add: io_sat_def io_raise_def)

lemma io_sat_emit: "P e \<Longrightarrow> io_sat P (\<lambda>_. True) (emit e)"
  by (simp add: io_sat_def emit_def)

lemma io_sat_read_clock: "io_sat P (\<lambda>_. True) (read_clock c)"
  by (simp add: io_sat_def read_clock_def)

lemma io_sat_bind:
  assumes "io_sat P R m" and "\<And>x. R x \<Longrightarrow> io_sat P R' (k x)"
  shows "io_sat P R' (io_bind m k)"
  unfolding io_sat_def
proof (intro allI)
  fix s
  obtain r s1 where ms: "m s = (r, s1)" by (cases "m s")
  from assms(1) obtain es where es: "trace s1 = trace s @ es" "list_all P es" "\<forall>x. r = Inr x \<longrightarrow> R x"
    unfolding io_sat_def using ms by (metis fst_conv snd_conv)
  show "\<exists>es. trace (snd (io_bind m k s)) = trace s @ es \<and> list_all P es \<and>
              (\<forall>x. fst (io_bind m k s) = Inr x \<longrightarrow> R' x)"
  proof (cases r)
    case (Inl a)
    then have "io_bind m k s = (Inl a, s1)" using ms by (simp add: io_bind_def)
    then show ?thesis using es by auto
  next
    case (Inr x)
    then have Rx: "R x" using es by simp
    have b: "io_bind m k s = k x s1" using ms Inr by (simp add: io_bind_def)
    from assms(2)[OF Rx] obtain es2 where
      "trace (snd (k x s1)) = trace s1 @ es2" "list_all P es2" "\<forall>y. fst (k x s1) = Inr y \<longrightarrow> R' y"
      unfolding io_sat_def by blast
    then show ?thesis using es b by (intro exI[of _ "es @ es2"]) simp
  qed
qed

lemma io_sat_bind_any:
  assumes "io_sat P (\<lambda>_. True) m" and "\<And>x. io_sat P R' (k x)"
  shows "io_sat P R' (io_bind m k)"
  using assms by (rule io_sat_bind)

lemma io_sat_try_except:
  assumes "io_sat P R m" and "\<And>e. io_sat P R (h e)"
  shows "io_sat P R (try_except m h)"
  unfolding io_sat_def
proof (intro allI)
  fix s
  obtain r s1 where ms: "m s = (r, s1)" by (cases "m s")
  from assms(1) obtain es where es: "trace s1 = trace s @ es" "list_all P es" "\<forall>x. r = Inr x \<longrightarrow> R x"
    unfolding io_sat_def using ms by (metis fst_conv snd_conv)
  show "\<exists>es. trace (snd (try_except m h s)) = trace s @ es \<and> list_all P es \<and>
              (\<forall>x. fst (try_except m h s) = Inr x \<longrightarrow> R x)"
  proof (cases r)
    case (Inr x)
    then have "try_except m h s = (Inr x, s1)" using ms by (simp add: try_except_def)
    then show ?thesis using es Inr by auto
  next
    case (Inl a)
    show ?thesis
    proof (cases a)
      case (SysExit n)
      then have "try_except m h s = (Inl (SysExit n), s1)" using ms Inl by (simp add: try_except_def)
      then show ?thesis using es by auto
    next
      case (Raised e)
      then have b: "try_except m h s = h e s1" using ms Inl by (simp add: try_except_def)
      from assms(2)[of e] obtain es2 where
        "trace (snd (h e s1)) = trace s1 @ es2" "list_all P es2" "\<forall>y. fst (h e s1) = Inr y \<longrightarrow> R y"
        unfolding io_sat_def by blast
      then show ?thesis using es b by (intro exI[of _ "es @ es2"]) simp
    qed
  qed
qed

lemma io_sat_init:
  "io_sat P R m \<Longrightarrow> list_all P (effects (m init))"
  unfolding io_sat_def effects_def init_def
  by (metis append_Nil st.select_convs(1))

text \<open>
  The collectors and the blocks of the run, for a property of effects that holds of
  whatever each of them may emit.
\<close>

lemma retain_messages_sat:
  assumes "\<And>p raw. P (WriteBytes p raw)"
  shows "io_sat P (\<lambda>_. True) (retain_messages W tgts out msgs acc)"
proof (induction msgs arbitrary: acc)
  case Nil
  show ?case by (simp add: io_sat_return)
next
  case (Cons m msgs)
  obtain uid raw where m: "m = (uid, raw)" by (cases m)
  show ?case
  proof (cases "parse_from_bytes W raw")
    case (Inl e)
    then show ?thesis by (simp add: m io_sat_raise)
  next
    case (Inr parsed)
    then show ?thesis
      by (simp add: m Let_def Cons.IH io_sat_bind_any io_sat_emit assms)
  qed
qed

lemma fetch_emails_sat:
  assumes "\<And>p raw. P (WriteBytes p raw)" and "\<And>h u p n c. P (ImapSession h u p n c)" and "P ImapLogout"
  shows "io_sat P (\<lambda>_. True) (fetch_emails W h u p n tgts d out)"
proof -
  have logout: "io_sat P (\<lambda>_. True)
      (case imap_logout W of Some e \<Rightarrow> io_raise (Raised e) | None \<Rightarrow> io_return results)" for results
    by (simp add: io_sat_raise io_sat_return split: option.split)
  have "io_sat P (\<lambda>_. True)
      (case x of Inl e \<Rightarrow> io_raise (Raised e)
       | Inr msgs \<Rightarrow>
           io_bind (retain_messages W tgts out msgs []) (\<lambda>results.
           io_bind (emit ImapLogout) (\<lambda>_.
           case imap_logout W of Some e \<Rightarrow> io_raise (Raised e) | None \<Rightarrow> io_return results)))" for x
    by (simp add: io_sat_raise io_sat_bind_any io_sat_emit retain_messages_sat assms logout
        split: sum.split)
  then show ?thesis
    by (simp add: fetch_emails_def Let_def io_sat_bind_any io_sat_emit assms)
qed

lemma list_messages_sat:
  assumes "\<And>a b c. P (TwilioList a b c)"
  shows "io_sat P (\<lambda>_. True) (list_messages W sid tok d nums acc)"
proof (induction nums arbitrary: acc)
  case Nil
  show ?case by (simp add: io_sat_return)
next
  case (Cons n nums)
  show ?case
  proof (cases "twilio_list W sid tok n d")
    case (Inl e)
    then show ?thesis by (simp add: io_sat_bind_any io_sat_emit assms io_sat_raise)
  next
    case (Inr msgs)
    then show ?thesis by (simp add: io_sat_bind_any io_sat_emit assms Cons.IH)
  qed
qed

lemma fetch_twilio_messages_sat:
  assumes "\<And>a b c. P (TwilioList a b c)" and "\<And>p xs. P (WriteJson p (JList xs))"
  shows "io_sat P (\<lambda>_. True) (fetch_twilio_messages W sid tok nums d out)"
  by (simp add: fetch_twilio_messages_def io_sat_return io_sat_bind_any io_sat_emit assms
      list_messages_sat)

lemma since_date_sat:
  assumes "\<And>x. P (Stderr x)"
  shows "io_sat P (\<lambda>_. True) (since_date W a)"
  by (simp add: since_date_def io_sat_return io_sat_raise io_sat_read_clock io_sat_bind_any
      io_sat_emit assms split: option.split)

lemma upload_index_sat:
  assumes "\<And>x. P (Stdout x)" and "\<And>u h p. P (HttpPostFile u h p)"
  shows "io_sat P (\<lambda>_. True) (upload_index W p)"
proof (cases "truthy (getenv W ''CLOUD_ARCHIVE_URL'') \<and> truthy (getenv W ''CLOUD_ARCHIVE_KEY'')")
  case False
  then show ?thesis by (auto simp: upload_index_def Let_def io_sat_return)
next
  case True
  have "\<And>x. io_sat P (\<lambda>_. True)
          (case x of Inr status \<Rightarrow> emit (Stdout (''Upload status '' @ str_of_nat status @ newline))
                   | Inl e \<Rightarrow> emit (Stdout (''Upload failed '' @ e @ newline)))"
    by (simp add: io_sat_emit assms split: sum.split)
  then show ?thesis using True
    by (simp add: upload_index_def Let_def io_sat_bind_any io_sat_emit assms)
qed

lemma fetch_apple_mdm_sat:
  assumes "\<And>u h. P (HttpGet u h)" and "\<And>p j. P (WriteJson p j)"
  shows "io_sat P (\<lambda>_. True) (fetch_apple_mdm W url key out)"
proof (cases "\<not> truthy url \<or> \<not> truthy key")
  case True
  then show ?thesis by (auto simp: fetch_apple_mdm_def io_sat_return)
next
  case False
  have body: "io_sat P (\<lambda>_. True)
      (case x of Inl e \<Rightarrow> io_raise (Raised e)
       | Inr r \<Rightarrow>
           if ok r then
             (case resp_json r of
                Inl e \<Rightarrow> io_raise (Raised e)
              | Inr devices \<Rightarrow>
                  io_bind (emit (WriteJson (path_join out ''devices.json'') devices)) (\<lambda>_.
                  io_return devices))
           else io_return (JObj [(''error'', JStr (''status '' @ str_of_nat (status_code r))),
                                 (''body'', JStr (resp_text r))]))" for x :: "string + 'a get_response"
    by (simp add: io_sat_raise io_sat_return io_sat_bind_any io_sat_emit assms split: sum.split)
  show ?thesis using False
    by (simp add: fetch_apple_mdm_def Let_def io_sat_try_except io_sat_bind_any io_sat_emit
        io_sat_return assms body)
qed

section \<open>The start date\<close>

text \<open>
  Claim C5, at an input where it fails as stated. With --since yesterday the process does
  exit with status 2, but not before every IO side effect: lines 93 and 95 have already
  created the output directory and its daily subdirectory.
\<close>

theorem invalid_since_creates_directories:
  "run_nightly_audit
      (sample_audit_world [] (Inl ''connection refused'') (\<lambda>n. Inr []) (Inl ''unreachable''))
      \<lparr>output_dir = ''audit'', targets = ''ops@example.org'', since = Some ''yesterday''\<rparr> init =
     (Inl (SysExit 2),
      \<lparr>trace = [MakeDirs ''audit'', MakeDirs ''audit/daily'',
                Stderr (''Invalid --since date format; use YYYY-MM-DD'' @ newline)],
       ticks = 0\<rparr>)"
  by code_simp

text \<open>
  Claim C5, as amended. For every non-empty --since argument that the date parser rejects,
  the process exits with status 2 after it has created the output directory and its daily
  subdirectory and written the usage message to standard error, and nothing else: no run
  folder, no file, no network call.
\<close>

theorem invalid_since_exits_2:
  assumes "since a = Some s" and "s \<noteq> []" and "strptime_date W s = None"
  shows "exit_status (run_nightly_audit W a init) = 2 \<and>
         effects (run_nightly_audit W a init) =
           [MakeDirs (output_dir a), MakeDirs (path_join (output_dir a) ''daily''),
            Stderr invalid_since_message]"
  using assms
  by (simp add: run_nightly_audit_def since_date_def truthy_def Let_def io_exec init_def
      exit_status_def effects_def)

theorem invalid_since_exits_2_witness:
  "since \<lparr>output_dir = ''nightly'', targets = ''ops@example.org'', since = Some ''05/01/2024''\<rparr>
     = Some ''05/01/2024'' \<and>
   ''05/01/2024'' \<noteq> [] \<and>
   strptime_date (sample_audit_world [] (Inr []) (\<lambda>n. Inr []) (Inl ''unreachable'')) ''05/01/2024'' = None \<and>
   exit_status (run_nightly_audit (sample_audit_world [] (Inr []) (\<lambda>n. Inr []) (Inl ''unreachable''))
      \<lparr>output_dir = ''nightly'', targets = ''ops@example.org'', since = Some ''05/01/2024''\<rparr> init) = 2 \<and>
   effects (run_nightly_audit (sample_audit_world [] (Inr []) (\<lambda>n. Inr []) (Inl ''unreachable''))
      \<lparr>output_dir = ''nightly'', targets = ''ops@example.org'', since = Some ''05/01/2024''\<rparr> init) =
     [MakeDirs ''nightly'', MakeDirs ''nightly/daily'',
      Stderr (''Invalid --since date format; use YYYY-MM-DD'' @ newline)]"
proof -
  let ?W = "sample_audit_world [] (Inr []) (\<lambda>n. Inr []) (Inl ''unreachable'') :: (int, string) audit_world"
  let ?a = "\<lparr>output_dir = ''nightly'', targets = ''ops@example.org'', since = Some ''05/01/2024''\<rparr>"
  have h1: "since ?a = Some ''05/01/2024''" by simp
  have h2: "''05/01/2024'' \<noteq> []" by simp
  have h3: "strptime_date ?W ''05/01/2024'' = None"
    by (simp add: sample_audit_world_def sample_date_def)
  show ?thesis
    using h1 h2 h3 invalid_since_exits_2 [OF h1 h2 h3]
    by (simp add: path_join_def invalid_since_message_def)
qed

section \<open>A collector that fails\<close>

text \<open>
  Claim C2, at an input where the code departs from it. The SMS provider is configured and
  its listing raises. \<^verbatim>\<open>fetch_twilio_messages\<close> has no \<^verbatim>\<open>try\<close>, and \<^verbatim>\<open>run\<close> calls it
  outside one (line 136), unlike the mail fetch (lines 130 to 133) and the device fetch
  (lines 76 to 86): the exception ends the run with status 1 after the mail collector, the
  device inventory is never fetched and no index is written.
\<close>

theorem sms_provider_failure_aborts_run:
  "run_nightly_audit (sample_audit_world [(''TWILIO_SID'', ''AC1''), (''TWILIO_TOKEN'', ''t''), (''APPLE_MDM_API_URL'', ''https://mdm.example/api/''), (''APPLE_MDM_API_KEY'', ''k'')] (Inr [(7, ''ops@example.org''), (8, ''other@example.org'')]) (\<lambda>n. Inl ''TwilioRestException'') (Inr \<lparr>ok = True, status_code = 200, resp_text = ''[]'', resp_json = Inr (JList [])\<rparr>)) \<lparr>output_dir = ''audit'', targets = ''Ops@Example.org, b@x.org'', since = Some ''2024-04-30''\<rparr> init
  = (Inl (Raised ''TwilioRestException''),
  \<lparr>trace =
     [MakeDirs ''audit'', MakeDirs ''audit/daily'',
      MakeDirs ''audit/daily/from-2024-04-30'',
      ImapSession None None None 993 ''2024-04-30'',
      WriteBytes ''audit/daily/from-2024-04-30/7.eml'' ''ops@example.org'',
      ImapLogout, TwilioList ''AC1'' ''t'' ''2704018770''],
     ticks = 0\<rparr>) \<and>
   exit_status (run_nightly_audit (sample_audit_world [(''TWILIO_SID'', ''AC1''), (''TWILIO_TOKEN'', ''t''), (''APPLE_MDM_API_URL'', ''https://mdm.example/api/''), (''APPLE_MDM_API_KEY'', ''k'')] (Inr [(7, ''ops@example.org''), (8, ''other@example.org'')]) (\<lambda>n. Inl ''TwilioRestException'') (Inr \<lparr>ok = True, status_code = 200, resp_text = ''[]'', resp_json = Inr (JList [])\<rparr>)) \<lparr>output_dir = ''audit'', targets = ''Ops@Example.org, b@x.org'', since = Some ''2024-04-30''\<rparr> init) = 1"
  by code_simp

section \<open>The device inventory\<close>






section \<open>Sources without configuration\<close>

lemma fetch_twilio_messages_skips:
  "\<not> (truthy sid \<and> truthy token) \<Longrightarrow>
   fetch_twilio_messages W sid token nums d out s = (Inr [], s)"
  by (auto simp: fetch_twilio_messages_def io_return_def)

lemma fetch_apple_mdm_skips:
  "\<not> (truthy url \<and> truthy key) \<Longrightarrow> fetch_apple_mdm W url key out s = (Inr JNull, s)"
  by (auto simp: fetch_apple_mdm_def io_return_def)

lemma run_without_sms_config:
  fixes W :: "('f, 'd) audit_world"
  assumes "\<not> (truthy (getenv W ''TWILIO_SID'') \<and> truthy (getenv W ''TWILIO_TOKEN''))"
  shows "io_sat (\<lambda>e. \<not> is_sms_call e) (\<lambda>_. True) (run_nightly_audit W a)"
proof -
  let ?P = "\<lambda>e :: 'f effect. \<not> is_sms_call e"
  have sms: "io_sat ?P (\<lambda>_. True)
      (fetch_twilio_messages W (getenv W ''TWILIO_SID'') (getenv W ''TWILIO_TOKEN'') nums d rf)" for nums d rf
    using assms by (auto simp: fetch_twilio_messages_def io_sat_return)
  show ?thesis
    unfolding run_nightly_audit_def Let_def
    apply (intro io_sat_bind_any io_sat_emit since_date_sat)
          apply simp
         apply simp
        apply simp
       apply simp
    apply (split option.split)
    apply (intro conjI impI allI io_sat_raise sms io_sat_bind_any io_sat_emit io_sat_read_clock
        io_sat_try_except fetch_emails_sat fetch_apple_mdm_sat upload_index_sat io_sat_return)
           apply simp_all
    done
qed

lemma run_without_device_config:
  fixes W :: "('f, 'd) audit_world"
  assumes "\<not> (truthy (getenv W ''APPLE_MDM_API_URL'') \<and> truthy (getenv W ''APPLE_MDM_API_KEY''))"
  shows "io_sat (\<lambda>e. \<not> is_device_call e) (\<lambda>_. True) (run_nightly_audit W a)"
proof -
  let ?P = "\<lambda>e :: 'f effect. \<not> is_device_call e"
  have dev: "io_sat ?P (\<lambda>_. True)
      (fetch_apple_mdm W (getenv W ''APPLE_MDM_API_URL'') (getenv W ''APPLE_MDM_API_KEY'') rf)" for rf
    using assms by (auto simp: fetch_apple_mdm_def io_sat_return)
  show ?thesis
    unfolding run_nightly_audit_def Let_def
    apply (intro io_sat_bind_any io_sat_emit since_date_sat)
          apply simp
         apply simp
        apply simp
       apply simp
    apply (split option.split)
    apply (intro conjI impI allI io_sat_raise dev io_sat_bind_any io_sat_emit io_sat_read_clock
        io_sat_try_except fetch_emails_sat fetch_twilio_messages_sat upload_index_sat io_sat_return)
           apply simp_all
    done
qed

text \<open>
  Claim C7, at an input where it fails as stated. Nothing is configured. The mail source is
  not skipped: \<^verbatim>\<open>fetch_emails\<close> is called with host \<^verbatim>\<open>None\<close> and opens its session, and
  the failure is what empties the mail result; and neither the SMS nor the device skip is
  logged: the run prints nothing about them.
\<close>

theorem unconfigured_mail_is_attempted:
  "effects (run_nightly_audit
      (sample_audit_world [] (Inl ''connection refused'') (\<lambda>n. Inr []) (Inl ''unreachable''))
      \<lparr>output_dir = ''archive'', targets = ''ops@example.org'', since = None\<rparr> init) =
     [MakeDirs ''archive'', MakeDirs ''archive/daily'', MakeDirs ''archive/daily/from-2024-05-01'',
      ImapSession None None None 993 ''2024-05-01'',
      Stdout (''Email fetch failed connection refused'' @ newline),
      WriteJson ''archive/daily/from-2024-05-01/index.json''
       (JObj [(''run_from'', JStr ''2024-05-01''),
              (''generated_ts'', JStr ''2024-05-01T06:00:00Z''),
              (''emails_count'', JInt 0), (''sms_count'', JInt 0), (''devices_count'', JInt 0)]),
      Stdout (''Nightly audit done'' @ newline)]"
  by code_simp

text \<open>
  Claim C7, as amended. For the SMS and the device-inventory source, absence of the
  configuration is not an error: the collector returns at once with no effect at all (no
  connection, no file, no log line), the SMS result is the empty list and the device
  result is \<^verbatim>\<open>None\<close>, counted as 0 devices; and the whole run then makes no call to that
  provider.
\<close>

theorem unconfigured_sms_and_devices_skipped:
  fixes W :: "('f, 'd) audit_world"
  shows "(\<not> (truthy sid \<and> truthy token) \<longrightarrow>
            fetch_twilio_messages W sid token nums d out s = (Inr [], s)) \<and>
         (\<not> (truthy url \<and> truthy key) \<longrightarrow>
            fetch_apple_mdm W url key out s = (Inr JNull, s) \<and>
            devices_count (JNull :: 'f json) = 0) \<and>
         (\<not> (truthy (getenv W ''TWILIO_SID'') \<and> truthy (getenv W ''TWILIO_TOKEN'')) \<longrightarrow>
            filter is_sms_call (effects (run_nightly_audit W a init)) = []) \<and>
         (\<not> (truthy (getenv W ''APPLE_MDM_API_URL'') \<and> truthy (getenv W ''APPLE_MDM_API_KEY'')) \<longrightarrow>
            filter is_device_call (effects (run_nightly_audit W a init)) = [])"
proof -
  have 3: "filter is_sms_call (effects (run_nightly_audit W a init)) = []"
    if "\<not> (truthy (getenv W ''TWILIO_SID'') \<and> truthy (getenv W ''TWILIO_TOKEN''))"
    using io_sat_init[OF run_without_sms_config[OF that, of a]]
    by (simp add: filter_empty_conv list_all_iff)
  have 4: "filter is_device_call (effects (run_nightly_audit W a init)) = []"
    if "\<not> (truthy (getenv W ''APPLE_MDM_API_URL'') \<and> truthy (getenv W ''APPLE_MDM_API_KEY''))"
    using io_sat_init[OF run_without_device_config[OF that, of a]]
    by (simp add: filter_empty_conv list_all_iff)
  show ?thesis
    using 3 4 fetch_twilio_messages_skips[of sid token W nums d out s]
      fetch_apple_mdm_skips[of url key W out s]
    by (simp add: devices_count_def)
qed

theorem unconfigured_sms_and_devices_skipped_witness:
  "fetch_twilio_messages (sample_audit_world [] (Inl ''connection refused'') (\<lambda>n. Inl ''unreachable'') (Inl ''unreachable''))
      None None [''2704018770''] ''2024-05-01'' ''ws'' init = (Inr [], init) \<and>
   fetch_apple_mdm (sample_audit_world [] (Inl ''connection refused'') (\<lambda>n. Inl ''unreachable'') (Inl ''unreachable''))
      None None ''ws'' init = (Inr JNull, init) \<and>
   filter is_sms_call (effects (run_nightly_audit
      (sample_audit_world [] (Inl ''connection refused'') (\<lambda>n. Inl ''unreachable'') (Inl ''unreachable''))
      \<lparr>output_dir = ''audit'', targets = ''ops@example.org'', since = None\<rparr> init)) = [] \<and>
   filter is_device_call (effects (run_nightly_audit
      (sample_audit_world [] (Inl ''connection refused'') (\<lambda>n. Inl ''unreachable'') (Inl ''unreachable''))
      \<lparr>output_dir = ''audit'', targets = ''ops@example.org'', since = None\<rparr> init)) = []"
proof -
  let ?W = "sample_audit_world [] (Inl ''connection refused'') (\<lambda>n. Inl ''unreachable'') (Inl ''unreachable'')
              :: (int, string) audit_world"
  let ?a = "\<lparr>output_dir = ''audit'', targets = ''ops@example.org'', since = None\<rparr>"
  have t: "\<not> (truthy None \<and> truthy None)" by (simp add: truthy_def)
  have e1: "\<not> (truthy (getenv ?W ''TWILIO_SID'') \<and> truthy (getenv ?W ''TWILIO_TOKEN''))"
    by (simp add: sample_audit_world_def truthy_def)
  have e2: "\<not> (truthy (getenv ?W ''APPLE_MDM_API_URL'') \<and> truthy (getenv ?W ''APPLE_MDM_API_KEY''))"
    by (simp add: sample_audit_world_def truthy_def)
  show ?thesis
    using t e1 e2
      unconfigured_sms_and_devices_skipped [of None None ?W "[''2704018770'']" "''2024-05-01''" "''ws''" init None None ?a]
    by blast
qed

section \<open>The SMS artifact\<close>





end
